theory Spec2Isabelle
  imports Complex_Main
begin

section \<open>JavaScript numbers\<close>

text \<open>
  The numbers of the source are binary64 values. The inputs of the engine and the decimal
  constants of the source are written as reals: such a real stands for the binary64 value
  nearest to it, \<open>num\<close>, which is what a decimal literal and \<open>parseFloat\<close> give; the
  comparisons of the source are made on these reals. The products, sums and differences of
  the source are computed on the binary64 values: the exact result is rounded to the nearest
  value with a significand of 53 bits, a tie going to the even significand, and a rounded
  result of magnitude \<open>2 ^ 1024\<close> or more is an infinity. Below \<open>2 ^ - 1022\<close> the spacing
  of the values stays \<open>2 ^ - 1074\<close>. The sign of a zero is not modelled. NaN arises from
  the arithmetic on infinities only; an absent field of the request body is a constructor of
  its own, see \<open>field\<close> below.
\<close>

datatype number = Fin real | PosInfinity | NegInfinity | NaN

definition pow2 :: "int \<Rightarrow> real" where
  "pow2 e = (if 0 \<le> e then 2 ^ nat e else 1 / 2 ^ nat (- e))"

definition roundTiesToEven :: "real \<Rightarrow> int" where
  "roundTiesToEven x =
     (let f = \<lfloor>x\<rfloor> in
      if x - of_int f < 1 / 2 then f
      else if 1 / 2 < x - of_int f then f + 1
      else if even f then f else f + 1)"

text \<open>
  The binary exponent of a positive real, \<open>e\<close> with \<open>2 ^ e \<le> x < 2 ^ (e + 1)\<close>, found by
  halving or doubling, and kept between \<open>- 1022\<close> and \<open>1024\<close>.
\<close>

function exponent_up :: "real \<Rightarrow> int \<Rightarrow> int" where
  "exponent_up x e = (if 2 \<le> x \<and> e < 1024 then exponent_up (x / 2) (e + 1) else e)"
  by pat_completeness auto
termination
  by (relation "measure (\<lambda>(x, e). nat (1024 - e))") auto

function exponent_down :: "real \<Rightarrow> int \<Rightarrow> int" where
  "exponent_down x e = (if x < 1 \<and> - 1022 < e then exponent_down (x * 2) (e - 1) else e)"
  by pat_completeness auto
termination
  by (relation "measure (\<lambda>(x, e). nat (e + 1022))") auto

declare exponent_up.simps [simp del] exponent_down.simps [simp del]

definition exponent :: "real \<Rightarrow> int" where
  "exponent x = (if 1 \<le> \<bar>x\<bar> then exponent_up \<bar>x\<bar> 0 else exponent_down \<bar>x\<bar> 0)"

text \<open>The binary64 value of a real: the nearest multiple of the spacing at its exponent.\<close>

definition binary64 :: "real \<Rightarrow> number" where
  "binary64 x =
     (let u = pow2 (exponent x - 52);
          r = of_int (roundTiesToEven (x / u)) * u
      in if pow2 1024 \<le> r then PosInfinity
         else if r \<le> - pow2 1024 then NegInfinity
         else Fin r)"

definition num :: "real \<Rightarrow> number" where
  "num x = binary64 x"

fun neg :: "number \<Rightarrow> number" where
  "neg (Fin a) = Fin (- a)"
| "neg PosInfinity = NegInfinity"
| "neg NegInfinity = PosInfinity"
| "neg NaN = NaN"

text \<open>The operators \<open>*\<close>, \<open>+\<close> and \<open>-\<close> of the source.\<close>

fun mul :: "number \<Rightarrow> number \<Rightarrow> number" where
  "mul (Fin a) (Fin b) = binary64 (a * b)"
| "mul NaN y = NaN"
| "mul x NaN = NaN"
| "mul PosInfinity (Fin b) = (if 0 < b then PosInfinity else if b < 0 then NegInfinity else NaN)"
| "mul NegInfinity (Fin b) = (if 0 < b then NegInfinity else if b < 0 then PosInfinity else NaN)"
| "mul (Fin a) PosInfinity = (if 0 < a then PosInfinity else if a < 0 then NegInfinity else NaN)"
| "mul (Fin a) NegInfinity = (if 0 < a then NegInfinity else if a < 0 then PosInfinity else NaN)"
| "mul PosInfinity PosInfinity = PosInfinity"
| "mul PosInfinity NegInfinity = NegInfinity"
| "mul NegInfinity PosInfinity = NegInfinity"
| "mul NegInfinity NegInfinity = PosInfinity"

fun add :: "number \<Rightarrow> number \<Rightarrow> number" where
  "add (Fin a) (Fin b) = binary64 (a + b)"
| "add NaN y = NaN"
| "add x NaN = NaN"
| "add PosInfinity NegInfinity = NaN"
| "add NegInfinity PosInfinity = NaN"
| "add PosInfinity y = PosInfinity"
| "add NegInfinity y = NegInfinity"
| "add (Fin a) y = y"

definition sub :: "number \<Rightarrow> number \<Rightarrow> number" where
  "sub x y = add x (neg y)"

text \<open>
  \<open>Math.round\<close> gives the nearest integer, a tie going up: \<open>floor (x + 0.5)\<close> computed
  exactly; an infinity and NaN are returned as they are.
\<close>

fun Math_round :: "number \<Rightarrow> number" where
  "Math_round (Fin x) = Fin (of_int \<lfloor>x + 1 / 2\<rfloor>)"
| "Math_round y = y"

text \<open>\<open>Math.max\<close> on two numbers that are not NaN.\<close>

definition Math_max :: "real \<Rightarrow> real \<Rightarrow> real" where
  "Math_max a b = (if a < b then b else a)"

text \<open>
  An optional lab value reaches the engine as a number or as \<open>null\<close>. The engine tests it
  with \<open>x && x < c\<close>: \<open>null\<close> is falsy, and so is the number 0, and the comparison is
  evaluated for a truthy value only.
\<close>

definition truthy_and :: "real option \<Rightarrow> (real \<Rightarrow> bool) \<Rightarrow> bool" where
  "truthy_and v P = (case v of None \<Rightarrow> False | Some x \<Rightarrow> x \<noteq> 0 \<and> P x)"

text \<open>
  \<open>String.prototype.replace\<close> with a string pattern replaces the first occurrence of the
  pattern, scanning from the left, and leaves a string without the pattern unchanged. The
  replacement is inserted as it is: the two replacements of the source hold no dollar sign.
\<close>

fun replace :: "string \<Rightarrow> string \<Rightarrow> string \<Rightarrow> string" where
  "replace [] pat rep = (if pat = [] then rep else [])"
| "replace (c # cs) pat rep =
     (if take (length pat) (c # cs) = pat then rep @ drop (length pat) (c # cs)
      else c # replace cs pat rep)"

text \<open>Whether a string has a given substring.\<close>

fun has_substring :: "string \<Rightarrow> string \<Rightarrow> bool" where
  "has_substring [] pat = (pat = [])"
| "has_substring (c # cs) pat = (take (length pat) (c # cs) = pat \<or> has_substring cs pat)"

section \<open>Data model\<close>

text \<open>The argument object of \<open>calculateIHPSFluidPlan\<close>.\<close>

record Snapshot =
  sodium :: real
  potassium :: real
  chloride :: real
  ph :: real
  weight :: real
  urineOutput :: real
  glucose :: "real option"
  pco2 :: "real option"
  hct :: "real option"
  lactate :: "real option"
  be :: "real option"
  hco3 :: "real option"
  creatinine :: "real option"
  bun :: "real option"

text \<open>The object returned by \<open>selectOptimalFluidEnhanced\<close>.\<close>

record FluidSelection =
  fluid :: string
  reason :: string

text \<open>
  The object returned by \<open>calculateBolusRecommendation\<close>; its third key is \<open>reason\<close> in
  the source, filled from the local \<open>bolusReason\<close>.
\<close>

record BolusRecommendation =
  volume :: real
  totalVolume :: number
  bolusReason :: string

record FluidPlan =
  fluidType :: string
  fluidSelectionReason :: string
  fluidRatePerHour :: number
  maintenanceRate :: number
  correctionTime :: real
  totalFluidVolume :: number
  bolusRecommendation :: BolusRecommendation
  alerts :: "string list"
  recheckInterval :: string
  nextLabCheck :: string

section \<open>Rate calculation\<close>

text \<open>The two locals of \<open>calculateIHPSFluidPlan\<close> before rounding (lines 94 to 103).\<close>

definition maintenanceRate_raw :: "real \<Rightarrow> number" where
  "maintenanceRate_raw w =
     (if w \<le> 10 then mul (num w) (num 4)
      else add (mul (num 10) (num 4)) (mul (sub (num w) (num 10)) (num 2)))"

definition fluidRatePerHour_raw :: "real \<Rightarrow> number" where
  "fluidRatePerHour_raw w =
     (if w \<le> 10 then mul (num w) (num 6)
      else add (mul (num 10) (num 6)) (mul (sub (num w) (num 10)) (num 3)))"

section \<open>Correction time\<close>

definition sodiumRule :: "real \<Rightarrow> real \<Rightarrow> real" where
  "sodiumRule na baseTime =
     (if na < 130 then 36 else if na < 135 then 24 else if na \<ge> 135 then 12 else baseTime)"

definition chlorideRule :: "real \<Rightarrow> real \<Rightarrow> real" where
  "chlorideRule cl baseTime =
     (if cl < 70 then Math_max baseTime 36
      else if cl < 90 then Math_max baseTime 24 else baseTime)"

definition phRule :: "real \<Rightarrow> real \<Rightarrow> real" where
  "phRule p baseTime =
     (if p > 7.55 then Math_max baseTime 24
      else if p > 7.45 then Math_max baseTime 18 else baseTime)"

definition weightRule :: "real \<Rightarrow> real \<Rightarrow> real" where
  "weightRule w baseTime = (if w < 3.0 then baseTime + 6 else baseTime)"

definition calculateCorrectionTime :: "Snapshot \<Rightarrow> real" where
  "calculateCorrectionTime s =
     (let baseTime = 12;
          baseTime = sodiumRule (sodium s) baseTime;
          baseTime = chlorideRule (chloride s) baseTime;
          baseTime = phRule (ph s) baseTime;
          baseTime = weightRule (weight s) baseTime
      in baseTime)"

section \<open>Alerts\<close>

definition alert_hypokalaemia :: string where
  "alert_hypokalaemia = ''CRITICAL: Severe hypokalaemia - aggressive KCl needed''"

definition alert_hyperkalaemia :: string where
  "alert_hyperkalaemia = ''CRITICAL: Hyperkalaemia risk - hold KCl, monitor closely''"

definition alert_hyponatremia :: string where
  "alert_hyponatremia = ''WARNING: Severe hyponatremia - use NS + 5% Dextrose''"

definition alert_hypochloremia :: string where
  "alert_hypochloremia = ''WARNING: Severe hypochloremia - expect longer correction time''"

definition alert_alkalosis :: string where
  "alert_alkalosis = ''WARNING: Severe alkalosis - slow correction needed''"

text \<open>\<open>alerts.push(m)\<close> under a condition: the message goes to the end of the array.\<close>

definition push_if :: "bool \<Rightarrow> string \<Rightarrow> string list \<Rightarrow> string list" where
  "push_if c m xs = (if c then xs @ [m] else xs)"

definition generateSimpleAlerts :: "Snapshot \<Rightarrow> string list" where
  "generateSimpleAlerts s =
     (let alerts = [];
          alerts = push_if (potassium s < 3.0) alert_hypokalaemia alerts;
          alerts = push_if (potassium s > 5.5) alert_hyperkalaemia alerts;
          alerts = push_if (sodium s < 130) alert_hyponatremia alerts;
          alerts = push_if (chloride s < 70) alert_hypochloremia alerts;
          alerts = push_if (ph s > 7.55) alert_alkalosis alerts
      in alerts)"

section \<open>Fluid selection\<close>

text \<open>
  The first statement of \<open>selectOptimalFluidEnhanced\<close> (lines 214 to 241): the branches on
  glucose and sodium assign \<open>fluid\<close> and \<open>reason\<close>.
\<close>

definition baseFluid :: "Snapshot \<Rightarrow> FluidSelection" where
  "baseFluid s =
     (if truthy_and (glucose s) (\<lambda>g. g < 2.5) then
        (if sodium s < 135 then
           \<lparr>fluid = ''D10 1/2 NS + 20 mEq/L KCl'',
            reason = ''Low glucose + low sodium - D10 1/2 NS for both glucose and sodium correction''\<rparr>
         else
           \<lparr>fluid = ''D10 NS + 20 mEq/L KCl'',
            reason = ''Low glucose + normal sodium - D10 NS for glucose support''\<rparr>)
      else if truthy_and (glucose s) (\<lambda>g. g < 3.0) then
        (if sodium s < 135 then
           \<lparr>fluid = ''D10 1/2 NS + 20 mEq/L KCl'',
            reason = ''Mildly low glucose + low sodium - D10 1/2 NS''\<rparr>
         else
           \<lparr>fluid = ''D5 1/2 NS + 20 mEq/L KCl'',
            reason = ''Mildly low glucose - standard D5 1/2 NS with monitoring''\<rparr>)
      else
        (if sodium s < 135 then
           \<lparr>fluid = ''NS + 5% Dextrose + 20 mEq/L KCl'',
            reason = ''Low sodium - NS + 5% Dextrose for sodium correction''\<rparr>
         else
           \<lparr>fluid = ''D5 1/2 NS + 20 mEq/L KCl'',
            reason = ''Normal sodium - standard D5 1/2 NS''\<rparr>))"

text \<open>The second statement (lines 244 to 250): the adjustment of KCl to the potassium.\<close>

definition adjustKCl :: "real \<Rightarrow> FluidSelection \<Rightarrow> FluidSelection" where
  "adjustKCl k sel =
     (if k < 3.0 then
        \<lparr>fluid = replace (fluid sel) ''20 mEq/L'' ''40 mEq/L'',
         reason = reason sel @ '' + aggressive KCl for severe hypokalaemia''\<rparr>
      else if k > 5.0 then
        \<lparr>fluid = replace (fluid sel) '' + 20 mEq/L KCl'' '''',
         reason = reason sel @ '' + hold KCl for hyperkalaemia''\<rparr>
      else sel)"

definition selectOptimalFluidEnhanced :: "Snapshot \<Rightarrow> FluidSelection" where
  "selectOptimalFluidEnhanced s = adjustKCl (potassium s) (baseFluid s)"

section \<open>Bolus recommendation\<close>

text \<open>
  The running pair \<open>(bolusVolume, bolusReason)\<close> of \<open>calculateBolusRecommendation\<close>:
  the severity tiers (lines 257 to 269), then the two additional factors.
\<close>

definition severityTier :: "Snapshot \<Rightarrow> real \<times> string" where
  "severityTier s =
     (if sodium s < 130 \<or> chloride s < 70 \<or> ph s > 7.55 then
        (20, ''Severe depletion - 20 mL/kg NS bolus recommended'')
      else if sodium s < 135 \<or> chloride s < 90 \<or> ph s > 7.45 then
        (10, ''Moderate depletion - 10 mL/kg NS bolus recommended'')
      else (0, ''No bolus needed - mild abnormalities''))"

definition hctFactor :: "real option \<Rightarrow> real \<times> string \<Rightarrow> real \<times> string" where
  "hctFactor h b =
     (if truthy_and h (\<lambda>x. x > 50) then
        (Math_max (fst b) 10, snd b @ '' + high hematocrit indicates dehydration'')
      else b)"

definition lactateFactor :: "real option \<Rightarrow> real \<times> string \<Rightarrow> real \<times> string" where
  "lactateFactor l b =
     (if truthy_and l (\<lambda>x. x > 2.0) then
        (Math_max (fst b) 10, snd b @ '' + elevated lactate indicates poor perfusion'')
      else b)"

definition calculateBolusRecommendation :: "Snapshot \<Rightarrow> BolusRecommendation" where
  "calculateBolusRecommendation s =
     (let b = severityTier s;
          b = hctFactor (hct s) b;
          b = lactateFactor (lactate s) b
      in \<lparr>volume = fst b, totalVolume = Math_round (mul (num (fst b)) (num (weight s))),
          bolusReason = snd b\<rparr>)"

section \<open>Plan assembly\<close>

definition calculateNextLabCheck :: "real \<Rightarrow> string" where
  "calculateNextLabCheck ct =
     (if ct \<le> 24 then ''Next lab check in 12 hours (critical first 24 hours)''
      else ''Next lab check in 24 hours (monitoring improvement)'')"

definition calculateIHPSFluidPlan :: "Snapshot \<Rightarrow> FluidPlan" where
  "calculateIHPSFluidPlan s =
     (let maintenance = maintenanceRate_raw (weight s);
          rate = fluidRatePerHour_raw (weight s);
          fluidSelection = selectOptimalFluidEnhanced s;
          bolus = calculateBolusRecommendation s;
          ct = calculateCorrectionTime s;
          total = mul rate (num ct);
          als = generateSimpleAlerts s;
          recheck = (if ct \<le> 24 then ''12 hours'' else ''24 hours'')
      in \<lparr>fluidType = fluid fluidSelection,
          fluidSelectionReason = reason fluidSelection,
          fluidRatePerHour = Math_round rate,
          maintenanceRate = Math_round maintenance,
          correctionTime = ct,
          totalFluidVolume = Math_round total,
          bolusRecommendation = bolus,
          alerts = als,
          recheckInterval = recheck,
          nextLabCheck = calculateNextLabCheck ct\<rparr>)"

section \<open>Validation and the gate of the request handler\<close>

text \<open>
  A required field of the request body, as the comparisons of \<open>validateInputs\<close> see it:
  a number, or absent. An absent field is \<open>undefined\<close>, which the relational operators
  convert to NaN, and every comparison with NaN is false.
\<close>

datatype field = Absent | Number real

fun lt :: "field \<Rightarrow> real \<Rightarrow> bool" where
  "lt Absent c = False"
| "lt (Number x) c = (x < c)"

fun gt :: "field \<Rightarrow> real \<Rightarrow> bool" where
  "gt Absent c = False"
| "gt (Number x) c = (x > c)"

record RequiredFields =
  f_sodium :: field
  f_potassium :: field
  f_chloride :: field
  f_ph :: field
  f_weight :: field

datatype validation = Valid | Invalid string

definition validateInputs :: "RequiredFields \<Rightarrow> validation" where
  "validateInputs b =
     (if lt (f_sodium b) 120 \<or> gt (f_sodium b) 155 then
        Invalid ''Sodium must be between 120-155 mmol/L''
      else if lt (f_potassium b) 2.0 \<or> gt (f_potassium b) 8.0 then
        Invalid ''Potassium must be between 2.0-8.0 mmol/L''
      else if lt (f_chloride b) 60 \<or> gt (f_chloride b) 120 then
        Invalid ''Chloride must be between 60-120 mmol/L''
      else if lt (f_ph b) 7.0 \<or> gt (f_ph b) 7.7 then
        Invalid ''pH must be between 7.0-7.7''
      else if lt (f_weight b) 1.0 \<or> gt (f_weight b) 10.0 then
        Invalid ''Weight must be between 1.0-10.0 kg''
      else Valid)"

text \<open>
  The handler of \<open>POST /calculate\<close> up to the call of the engine (lines 28 to 37): it
  answers with the error of a failed validation and returns, or goes on to call
  \<open>calculateIHPSFluidPlan\<close> on the parsed fields.
\<close>

datatype outcome = Respond_error string | Invoke_engine RequiredFields

definition calculate_route :: "RequiredFields \<Rightarrow> outcome" where
  "calculate_route b =
     (case validateInputs b of
        Invalid e \<Rightarrow> Respond_error e
      | Valid \<Rightarrow> Invoke_engine b)"

text \<open>The declared ranges of the five required fields.\<close>

definition in_range :: "Snapshot \<Rightarrow> bool" where
  "in_range s \<longleftrightarrow>
     120 \<le> sodium s \<and> sodium s \<le> 155 \<and>
     2.0 \<le> potassium s \<and> potassium s \<le> 8.0 \<and>
     60 \<le> chloride s \<and> chloride s \<le> 120 \<and>
     7.0 \<le> ph s \<and> ph s \<le> 7.7 \<and>
     1.0 \<le> weight s \<and> weight s \<le> 10.0"

section \<open>Concrete snapshots and the estimator in the words of the specification\<close>

text \<open>A snapshot from its required fields, glucose, hematocrit and lactate; nothing else measured.\<close>

definition snapshot :: "real \<Rightarrow> real \<Rightarrow> real \<Rightarrow> real \<Rightarrow> real \<Rightarrow> real option \<Rightarrow> real option \<Rightarrow> real option \<Rightarrow> Snapshot" where
  "snapshot na k cl p w g h l =
     \<lparr>sodium = na, potassium = k, chloride = cl, ph = p, weight = w, urineOutput = 1,
      glucose = g, pco2 = None, hct = h, lactate = l, be = None, hco3 = None,
      creatinine = None, bun = None\<rparr>"

text \<open>
  The correction time as the specification describes it: start at 12; the sodium rule sets
  36, 24 or 12; chloride and pH raise the value to a floor; a weight below 3.0 adds 6 hours
  after all floors.
\<close>

definition correctionTime_spec :: "real \<Rightarrow> real \<Rightarrow> real \<Rightarrow> real \<Rightarrow> real" where
  "correctionTime_spec na cl p w =
     (let t = (12::real);
          t = (if na < 130 then 36 else if 130 \<le> na \<and> na < 135 then 24 else 12);
          t = (if cl < 70 then max t 36 else if 70 \<le> cl \<and> cl < 90 then max t 24 else t);
          t = (if p > 7.55 then max t 24 else if 7.45 < p \<and> p \<le> 7.55 then max t 18 else t)
      in if w < 3.0 then t + 6 else t)"

text \<open>The request body whose five required fields are the numbers of a snapshot.\<close>

definition numeric :: "Snapshot \<Rightarrow> RequiredFields" where
  "numeric s =
     \<lparr>f_sodium = Number (sodium s), f_potassium = Number (potassium s),
      f_chloride = Number (chloride s), f_ph = Number (ph s), f_weight = Number (weight s)\<rparr>"

section \<open>Properties of the rounding\<close>

text \<open>The equations that evaluate a number at a concrete input.\<close>

lemmas binary64_eval = num_def binary64_def exponent_def exponent_up.simps exponent_down.simps
  pow2_def roundTiesToEven_def Let_def

lemma pow2_pos: "0 < pow2 e"
  by (simp add: pow2_def)

lemma roundTiesToEven_int: "roundTiesToEven (of_int k) = k"
  by (simp add: roundTiesToEven_def)

lemma exponent_down_le: "exponent_down x e \<le> e"
proof (induction x e rule: exponent_down.induct)
  case (1 x e)
  show ?case
  proof (cases "x < 1 \<and> - 1022 < e")
    case True
    with 1 have "exponent_down (x * 2) (e - 1) \<le> e - 1" by simp
    with True show ?thesis by (subst exponent_down.simps) simp
  next
    case False
    then show ?thesis by (subst exponent_down.simps) auto
  qed
qed

lemma exponent_up_le: "x < 2 * 2 ^ k \<Longrightarrow> exponent_up x e \<le> e + int k"
proof (induction k arbitrary: x e)
  case 0
  then show ?case by (subst exponent_up.simps) simp
next
  case (Suc k)
  show ?case
  proof (cases "2 \<le> x \<and> e < 1024")
    case True
    from Suc.prems have "x / 2 < 2 * 2 ^ k" by simp
    then have "exponent_up (x / 2) (e + 1) \<le> e + 1 + int k" by (rule Suc.IH)
    with True show ?thesis by (subst exponent_up.simps) simp
  next
    case False
    then show ?thesis by (subst exponent_up.simps) auto
  qed
qed

lemma exponent_le: "\<bar>x\<bar> < 2 * 2 ^ k \<Longrightarrow> exponent x \<le> int k"
  using exponent_up_le [of "\<bar>x\<bar>" k 0] exponent_down_le [of "\<bar>x\<bar>" 0]
  by (simp add: exponent_def)

lemma binary64_small_unit:
  assumes "e \<le> 52"
  shows "of_int (roundTiesToEven (of_int n / pow2 (e - 52))) * pow2 (e - 52) = (of_int n :: real)"
proof -
  have u: "pow2 (e - 52) = 1 / 2 ^ nat (52 - e)"
  proof (cases "e = 52")
    case True then show ?thesis by (simp add: pow2_def)
  next
    case False
    with assms have "e - 52 < 0" by simp
    then show ?thesis by (simp add: pow2_def)
  qed
  have "of_int n / pow2 (e - 52) = (of_int (n * 2 ^ nat (52 - e)) :: real)"
    by (simp add: u)
  then have "roundTiesToEven (of_int n / pow2 (e - 52)) = n * 2 ^ nat (52 - e)"
    by (simp only: roundTiesToEven_int)
  then show ?thesis by (simp add: u)
qed

lemma binary64_int:
  assumes "\<bar>n\<bar> < 2 ^ 53"
  shows "binary64 (of_int n) = Fin (of_int n)"
proof -
  have "\<bar>of_int n :: real\<bar> < 2 * 2 ^ 52"
  proof -
    have "\<bar>of_int n :: real\<bar> = of_int \<bar>n\<bar>" by simp
    also have "\<dots> < of_int (2 ^ 53)" using assms by (simp only: of_int_less_iff)
    finally show ?thesis by simp
  qed
  then have e: "exponent (of_int n) \<le> 52"
    using exponent_le [of "of_int n" 52] by simp
  have r: "of_int (roundTiesToEven (of_int n / pow2 (exponent (of_int n) - 52))) *
      pow2 (exponent (of_int n) - 52) = (of_int n :: real)"
    by (rule binary64_small_unit [OF e])
  have b1: "\<not> pow2 1024 \<le> (of_int n :: real)"
  proof -
    have "(of_int n :: real) \<le> \<bar>of_int n\<bar>" by simp
    also have "\<dots> < 2 * 2 ^ 52" by fact
    also have "\<dots> \<le> pow2 1024" by (simp add: pow2_def)
    finally show ?thesis by simp
  qed
  have b2: "\<not> (of_int n :: real) \<le> - pow2 1024"
  proof -
    have "- pow2 1024 \<le> - (2 * 2 ^ 52 :: real)" by (simp add: pow2_def)
    also have "\<dots> < - \<bar>of_int n :: real\<bar>" using \<open>\<bar>of_int n :: real\<bar> < 2 * 2 ^ 52\<close> by simp
    also have "\<dots> \<le> of_int n" by simp
    finally show ?thesis by simp
  qed
  show ?thesis
    unfolding binary64_def Let_def r using b1 b2 by simp
qed

lemma Math_round_whole: "Math_round (Fin (of_int k)) = Fin (of_int k)"
  by simp

lemma Math_round_binary64_int: "Math_round (binary64 (of_int n)) = binary64 (of_int n)"
proof (cases "exponent (of_int n) \<le> 52")
  case True
  have "of_int (roundTiesToEven (of_int n / pow2 (exponent (of_int n) - 52))) *
      pow2 (exponent (of_int n) - 52) = (of_int n :: real)"
    by (rule binary64_small_unit [OF True])
  then have "binary64 (of_int n) = (if pow2 1024 \<le> (of_int n :: real) then PosInfinity
         else if (of_int n :: real) \<le> - pow2 1024 then NegInfinity
         else Fin (of_int n))"
    unfolding binary64_def Let_def by simp
  then show ?thesis by simp
next
  case False
  then have "pow2 (exponent (of_int n) - 52) = of_int (2 ^ nat (exponent (of_int n) - 52))"
    by (simp add: pow2_def)
  then have "of_int (roundTiesToEven (of_int n / pow2 (exponent (of_int n) - 52))) *
      pow2 (exponent (of_int n) - 52) =
      of_int (roundTiesToEven (of_int n / pow2 (exponent (of_int n) - 52)) *
        2 ^ nat (exponent (of_int n) - 52))"
    by simp
  then obtain k :: int where
    "of_int (roundTiesToEven (of_int n / pow2 (exponent (of_int n) - 52))) *
      pow2 (exponent (of_int n) - 52) = (of_int k :: real)"
    by blast
  then have "binary64 (of_int n) = (if pow2 1024 \<le> (of_int k :: real) then PosInfinity
         else if (of_int k :: real) \<le> - pow2 1024 then NegInfinity
         else Fin (of_int k))"
    unfolding binary64_def Let_def by simp
  then show ?thesis by simp
qed

lemma num_small:
  "num 2 = Fin 2" "num 3 = Fin 3" "num 4 = Fin 4" "num 6 = Fin 6" "num 10 = Fin 10"
  "num 12 = Fin 12" "num 18 = Fin 18" "num 24 = Fin 24" "num 30 = Fin 30"
  "num 36 = Fin 36" "num 42 = Fin 42" "num 20 = Fin 20"
  by (simp_all add: binary64_eval)

section \<open>Properties of the plan\<close>

text \<open>
  A product of the source is the exact product whenever the two operands and the exact
  product are binary64 values.
\<close>

lemma mul_exact:
  assumes "num a = Fin a" "num b = Fin b" "num (a * b) = Fin (a * b)"
  shows "mul (num a) (num b) = Fin (a * b)"
  using assms by (simp add: num_def)

lemma plan_correctionTime:
  "correctionTime (calculateIHPSFluidPlan s) = calculateCorrectionTime s"
  by (simp add: calculateIHPSFluidPlan_def Let_def)

lemma plan_rates:
  "fluidRatePerHour (calculateIHPSFluidPlan s) = Math_round (fluidRatePerHour_raw (weight s))"
  "maintenanceRate (calculateIHPSFluidPlan s) = Math_round (maintenanceRate_raw (weight s))"
  "totalFluidVolume (calculateIHPSFluidPlan s) =
     Math_round (mul (fluidRatePerHour_raw (weight s)) (num (calculateCorrectionTime s)))"
  by (simp_all add: calculateIHPSFluidPlan_def Let_def)

text \<open>
  Claim C7: for a weight of at most 10 kg the plan's \<open>fluidRatePerHour\<close> is
  \<open>round (weight * 6)\<close> and its \<open>maintenanceRate\<close> is \<open>round (weight * 4)\<close>; above 10 kg
  they are \<open>round (10 * 6 + (weight - 10) * 3)\<close> and \<open>round (10 * 4 + (weight - 10) * 2)\<close>.
  The products, the sum and the difference are those of the source, on binary64 values.
\<close>

theorem C7_rates:
  "(weight s \<le> 10 \<longrightarrow>
      fluidRatePerHour (calculateIHPSFluidPlan s) = Math_round (mul (num (weight s)) (num 6)) \<and>
      maintenanceRate (calculateIHPSFluidPlan s) = Math_round (mul (num (weight s)) (num 4))) \<and>
   (weight s > 10 \<longrightarrow>
      maintenanceRate (calculateIHPSFluidPlan s) =
        Math_round (add (mul (num 10) (num 4)) (mul (sub (num (weight s)) (num 10)) (num 2))) \<and>
      fluidRatePerHour (calculateIHPSFluidPlan s) =
        Math_round (add (mul (num 10) (num 6)) (mul (sub (num (weight s)) (num 10)) (num 3))))"
  by (simp add: plan_rates fluidRatePerHour_raw_def maintenanceRate_raw_def)

text \<open>
  At a weight of 1.0833333333333333 kg the binary64 product with 6 is 6.5, the exact product
  of the binary64 weight lying a half spacing below it, and the rate is 7.
\<close>

theorem C7_rates_witness:
  "weight (snapshot 140 4 105 7.4 1.0833333333333333 None None None) \<le> 10 \<and>
   mul (num (weight (snapshot 140 4 105 7.4 1.0833333333333333 None None None))) (num 6) = Fin 6.5 \<and>
   fluidRatePerHour (calculateIHPSFluidPlan (snapshot 140 4 105 7.4 1.0833333333333333 None None None)) = Fin 7 \<and>
   maintenanceRate (calculateIHPSFluidPlan (snapshot 140 4 105 7.4 1.0833333333333333 None None None)) = Fin 4 \<and>
   weight (snapshot 140 4 105 7.4 12.3 None None None) > 10 \<and>
   maintenanceRate (calculateIHPSFluidPlan (snapshot 140 4 105 7.4 12.3 None None None)) = Fin 45 \<and>
   fluidRatePerHour (calculateIHPSFluidPlan (snapshot 140 4 105 7.4 12.3 None None None)) = Fin 67"
proof -
  let ?s = "snapshot 140 4 105 7.4 1.0833333333333333 None None None"
  let ?t = "snapshot 140 4 105 7.4 12.3 None None None"
  have ws: "weight ?s \<le> 10" and wt: "weight ?t > 10"
    by (simp_all add: snapshot_def)
  have s6: "mul (num (weight ?s)) (num 6) = Fin 6.5"
    by (simp add: snapshot_def binary64_eval)
  have s4: "Math_round (mul (num (weight ?s)) (num 4)) = Fin 4"
    by (simp add: snapshot_def binary64_eval)
  have t2: "Math_round (add (mul (num 10) (num 4)) (mul (sub (num (weight ?t)) (num 10)) (num 2)))
      = Fin 45"
    by (simp add: snapshot_def sub_def binary64_eval)
  have t3: "Math_round (add (mul (num 10) (num 6)) (mul (sub (num (weight ?t)) (num 10)) (num 3)))
      = Fin 67"
    by (simp add: snapshot_def sub_def binary64_eval)
  have r: "Math_round (Fin 6.5) = Fin 7"
    by simp
  from C7_rates [of ?s] ws
  have "fluidRatePerHour (calculateIHPSFluidPlan ?s) = Math_round (mul (num (weight ?s)) (num 6))"
    and "maintenanceRate (calculateIHPSFluidPlan ?s) = Math_round (mul (num (weight ?s)) (num 4))"
    by blast+
  then have a: "fluidRatePerHour (calculateIHPSFluidPlan ?s) = Fin 7"
    and b: "maintenanceRate (calculateIHPSFluidPlan ?s) = Fin 4"
    by (simp_all only: s6 s4 r)
  from C7_rates [of ?t] wt
  have "maintenanceRate (calculateIHPSFluidPlan ?t) =
      Math_round (add (mul (num 10) (num 4)) (mul (sub (num (weight ?t)) (num 10)) (num 2)))"
    and "fluidRatePerHour (calculateIHPSFluidPlan ?t) =
      Math_round (add (mul (num 10) (num 6)) (mul (sub (num (weight ?t)) (num 10)) (num 3)))"
    by blast+
  then have c: "maintenanceRate (calculateIHPSFluidPlan ?t) = Fin 45"
    and d: "fluidRatePerHour (calculateIHPSFluidPlan ?t) = Fin 67"
    by (simp_all only: t2 t3)
  from ws wt s6 a b c d show ?thesis by blast
qed

text \<open>
  Claim C3: the plan's \<open>correctionTime\<close> is the value the specification's rules give
  (\<open>correctionTime_spec\<close>), for every snapshot and so for every valid one.
\<close>

theorem C3_correctionTime:
  "correctionTime (calculateIHPSFluidPlan s) =
     correctionTime_spec (sodium s) (chloride s) (ph s) (weight s)"
  by (simp add: plan_correctionTime calculateCorrectionTime_def correctionTime_spec_def
      sodiumRule_def chlorideRule_def phRule_def weightRule_def Math_max_def Let_def)

lemma correctionTime_values:
  "calculateCorrectionTime s \<in> {12, 18, 24, 30, 36, 42}"
  by (simp add: calculateCorrectionTime_def
      sodiumRule_def chlorideRule_def phRule_def weightRule_def Math_max_def Let_def)

lemma correctionTime_mono:
  assumes "sodium s' \<le> sodium s" "chloride s' \<le> chloride s" "ph s \<le> ph s'" "weight s' = weight s"
  shows "calculateCorrectionTime s \<le> calculateCorrectionTime s'"
  using assms
  by (simp add: calculateCorrectionTime_def
      sodiumRule_def chlorideRule_def phRule_def weightRule_def Math_max_def Let_def)

text \<open>
  Claim C4: the plan's \<open>correctionTime\<close> is one of 12, 18, 24, 30, 36, 42, and it does not
  decrease when sodium falls, chloride falls or pH rises, the weight being the same (any of
  the three may move alone, the others fixed).
\<close>

theorem C4_correctionTime_range_mono:
  "correctionTime (calculateIHPSFluidPlan s) \<in> {12, 18, 24, 30, 36, 42} \<and>
   (sodium s' \<le> sodium s \<and> chloride s' \<le> chloride s \<and> ph s \<le> ph s' \<and> weight s' = weight s \<longrightarrow>
      correctionTime (calculateIHPSFluidPlan s) \<le> correctionTime (calculateIHPSFluidPlan s'))"
  using correctionTime_values [of s] correctionTime_mono [of s' s]
  by (simp only: plan_correctionTime) blast

theorem C4_correctionTime_range_mono_witness:
  "sodium (snapshot 128 4 65 7.6 5 None None None) \<le> sodium (snapshot 140 4 105 7.4 5 None None None) \<and>
   chloride (snapshot 128 4 65 7.6 5 None None None) \<le> chloride (snapshot 140 4 105 7.4 5 None None None) \<and>
   ph (snapshot 140 4 105 7.4 5 None None None) \<le> ph (snapshot 128 4 65 7.6 5 None None None) \<and>
   weight (snapshot 128 4 65 7.6 5 None None None) = weight (snapshot 140 4 105 7.4 5 None None None) \<and>
   correctionTime (calculateIHPSFluidPlan (snapshot 140 4 105 7.4 5 None None None)) = 12 \<and>
   correctionTime (calculateIHPSFluidPlan (snapshot 128 4 65 7.6 5 None None None)) = 36 \<and>
   correctionTime (calculateIHPSFluidPlan (snapshot 140 4 105 7.4 5 None None None))
     \<le> correctionTime (calculateIHPSFluidPlan (snapshot 128 4 65 7.6 5 None None None))"
  using C4_correctionTime_range_mono
    [of "snapshot 140 4 105 7.4 5 None None None" "snapshot 128 4 65 7.6 5 None None None"]
  by (simp add: snapshot_def plan_correctionTime calculateCorrectionTime_def
      sodiumRule_def chlorideRule_def phRule_def weightRule_def Math_max_def Let_def)

text \<open>
  Claim C1 as stated fails: at a weight of 1.25 kg the rate is 7.5 mL/h, reported as 8, the
  correction time is 18 h, and the reported total is \<open>round (7.5 * 18) = 135\<close>, not
  \<open>8 * 18 = 144\<close>. Every product here is a binary64 value before it is rounded.
\<close>

theorem C1_counterexample:
  "in_range (snapshot 140 4 105 7.25 1.25 None None None) \<and>
   fluidRatePerHour (calculateIHPSFluidPlan (snapshot 140 4 105 7.25 1.25 None None None)) = Fin 8 \<and>
   correctionTime (calculateIHPSFluidPlan (snapshot 140 4 105 7.25 1.25 None None None)) = 18 \<and>
   totalFluidVolume (calculateIHPSFluidPlan (snapshot 140 4 105 7.25 1.25 None None None)) = Fin 135 \<and>
   mul (fluidRatePerHour (calculateIHPSFluidPlan (snapshot 140 4 105 7.25 1.25 None None None)))
     (num (correctionTime (calculateIHPSFluidPlan (snapshot 140 4 105 7.25 1.25 None None None)))) =
     Fin 144 \<and>
   totalFluidVolume (calculateIHPSFluidPlan (snapshot 140 4 105 7.25 1.25 None None None)) \<noteq>
     mul (fluidRatePerHour (calculateIHPSFluidPlan (snapshot 140 4 105 7.25 1.25 None None None)))
       (num (correctionTime (calculateIHPSFluidPlan (snapshot 140 4 105 7.25 1.25 None None None))))"
proof -
  let ?s = "snapshot 140 4 105 7.25 1.25 None None None"
  have i: "in_range ?s"
    by (simp add: snapshot_def in_range_def)
  have r: "fluidRatePerHour_raw (weight ?s) = Fin 7.5"
    by (simp add: snapshot_def fluidRatePerHour_raw_def binary64_eval)
  have c: "calculateCorrectionTime ?s = 18"
    by (simp add: snapshot_def calculateCorrectionTime_def
        sodiumRule_def chlorideRule_def phRule_def weightRule_def Math_max_def)
  have p: "mul (Fin 7.5) (Fin 18) = Fin 135" and q: "mul (Fin 8) (Fin 18) = Fin 144"
    by (simp_all add: binary64_eval)
  have n18: "num 18 = Fin 18"
    by (rule num_small)
  have r8: "Math_round (Fin 7.5) = Fin 8" and r135: "Math_round (Fin 135) = Fin 135"
    by simp_all
  have f: "fluidRatePerHour (calculateIHPSFluidPlan ?s) = Fin 8"
    by (simp only: plan_rates r r8)
  have t: "totalFluidVolume (calculateIHPSFluidPlan ?s) = Fin 135"
    by (simp only: plan_rates r c n18 p r135)
  have k: "correctionTime (calculateIHPSFluidPlan ?s) = 18"
    by (simp only: plan_correctionTime c)
  have m: "mul (fluidRatePerHour (calculateIHPSFluidPlan ?s))
      (num (correctionTime (calculateIHPSFluidPlan ?s))) = Fin 144"
    by (simp only: f k n18 q)
  have n: "totalFluidVolume (calculateIHPSFluidPlan ?s) \<noteq>
      mul (fluidRatePerHour (calculateIHPSFluidPlan ?s))
        (num (correctionTime (calculateIHPSFluidPlan ?s)))"
    unfolding t m by simp
  from i f k t m n show ?thesis by blast
qed

text \<open>
  A whole rate times a correction time: the binary64 product is a whole number, which
  \<open>Math.round\<close> returns, and it is the exact product while the rate is below \<open>2 ^ 47\<close>.
\<close>

lemma whole_rate_total:
  assumes "c \<in> {12, 18, 24, 30, 36, 42}"
  shows "Math_round (mul (Fin (of_int m)) (num c)) = mul (Fin (of_int m)) (num c)"
    and "\<bar>m\<bar> < 2 ^ 47 \<Longrightarrow> mul (Fin (of_int m)) (num c) = Fin (of_int m * c)"
proof -
  from assms obtain n :: int where n: "c = of_int n" "num c = Fin (of_int n)" "0 < n" "n < 64"
  proof -
    from assms consider "c = 12" | "c = 18" | "c = 24" | "c = 30" | "c = 36" | "c = 42"
      by auto
    then show ?thesis
    proof cases
      case 1 with that [of 12] show ?thesis by (simp add: num_small)
    next
      case 2 with that [of 18] show ?thesis by (simp add: num_small)
    next
      case 3 with that [of 24] show ?thesis by (simp add: num_small)
    next
      case 4 with that [of 30] show ?thesis by (simp add: num_small)
    next
      case 5 with that [of 36] show ?thesis by (simp add: num_small)
    next
      case 6 with that [of 42] show ?thesis by (simp add: num_small)
    qed
  qed
  have p: "mul (Fin (of_int m)) (num c) = binary64 (of_int (m * n))"
    by (simp only: n(2) mul.simps of_int_mult)
  show "Math_round (mul (Fin (of_int m)) (num c)) = mul (Fin (of_int m)) (num c)"
    unfolding p by (rule Math_round_binary64_int)
  show "mul (Fin (of_int m)) (num c) = Fin (of_int m * c)" if m: "\<bar>m\<bar> < 2 ^ 47"
  proof -
    have "\<bar>m * n\<bar> = \<bar>m\<bar> * n" using n(3) by (simp add: abs_mult)
    also have "\<dots> \<le> \<bar>m\<bar> * 64" using n(4) by (intro mult_left_mono) simp_all
    also have "\<dots> < 2 ^ 53" using m by simp
    finally have "binary64 (of_int (m * n)) = Fin (of_int (m * n))" by (rule binary64_int)
    then show ?thesis unfolding p by (simp add: n(1))
  qed
qed

text \<open>
  Claim C1, amended: \<open>totalFluidVolume\<close> is the rounding of the product of the unrounded
  hourly rate and \<open>correctionTime\<close>, where \<open>fluidRatePerHour\<close> is the rounding of that same
  unrounded rate (\<open>weight * 6\<close> up to 10 kg), the products being those of the source on
  binary64 values; when the unrounded rate is a whole number, \<open>totalFluidVolume\<close> is the
  product of \<open>fluidRatePerHour\<close> and \<open>correctionTime\<close>, which is the exact product while
  the rate is below \<open>2 ^ 47\<close>.
\<close>

theorem C1_totalFluidVolume:
  "totalFluidVolume (calculateIHPSFluidPlan s) =
     Math_round (mul (fluidRatePerHour_raw (weight s))
       (num (correctionTime (calculateIHPSFluidPlan s)))) \<and>
   fluidRatePerHour (calculateIHPSFluidPlan s) = Math_round (fluidRatePerHour_raw (weight s)) \<and>
   (weight s \<le> 10 \<longrightarrow> fluidRatePerHour_raw (weight s) = mul (num (weight s)) (num 6)) \<and>
   (fluidRatePerHour_raw (weight s) = Fin (of_int m) \<longrightarrow>
      fluidRatePerHour (calculateIHPSFluidPlan s) = Fin (of_int m) \<and>
      totalFluidVolume (calculateIHPSFluidPlan s) =
        mul (fluidRatePerHour (calculateIHPSFluidPlan s))
          (num (correctionTime (calculateIHPSFluidPlan s))) \<and>
      (\<bar>m\<bar> < 2 ^ 47 \<longrightarrow>
         totalFluidVolume (calculateIHPSFluidPlan s) =
           Fin (of_int m * correctionTime (calculateIHPSFluidPlan s))))"
proof -
  have c: "calculateCorrectionTime s \<in> {12, 18, 24, 30, 36, 42}"
    by (rule correctionTime_values)
  have whole: "fluidRatePerHour (calculateIHPSFluidPlan s) = Fin (of_int m) \<and>
      totalFluidVolume (calculateIHPSFluidPlan s) =
        mul (fluidRatePerHour (calculateIHPSFluidPlan s))
          (num (correctionTime (calculateIHPSFluidPlan s))) \<and>
      (\<bar>m\<bar> < 2 ^ 47 \<longrightarrow>
         totalFluidVolume (calculateIHPSFluidPlan s) =
           Fin (of_int m * correctionTime (calculateIHPSFluidPlan s)))"
    if r: "fluidRatePerHour_raw (weight s) = Fin (of_int m)"
  proof -
    have f: "fluidRatePerHour (calculateIHPSFluidPlan s) = Fin (of_int m)"
      by (simp add: plan_rates r)
    have t: "totalFluidVolume (calculateIHPSFluidPlan s) =
        mul (Fin (of_int m)) (num (calculateCorrectionTime s))"
      by (simp only: plan_rates r whole_rate_total(1) [OF c])
    from f t whole_rate_total(2) [OF c, of m] show ?thesis
      by (simp add: plan_correctionTime)
  qed
  have rest: "totalFluidVolume (calculateIHPSFluidPlan s) =
     Math_round (mul (fluidRatePerHour_raw (weight s))
       (num (correctionTime (calculateIHPSFluidPlan s)))) \<and>
   fluidRatePerHour (calculateIHPSFluidPlan s) = Math_round (fluidRatePerHour_raw (weight s)) \<and>
   (weight s \<le> 10 \<longrightarrow> fluidRatePerHour_raw (weight s) = mul (num (weight s)) (num 6))"
    by (simp add: plan_rates plan_correctionTime fluidRatePerHour_raw_def)
  from rest whole show ?thesis by blast
qed

text \<open>
  A whole rate at 2.5 kg, and a rate that is not whole at 1.025 kg with sodium 132: there the
  binary64 rate is 6.1499999999999995, its product with 30 is 184.49999999999997, and the
  total is 184.
\<close>

theorem C1_totalFluidVolume_witness:
  "weight (snapshot 140 4 105 7.4 2.5 None None None) \<le> 10 \<and>
   fluidRatePerHour_raw (weight (snapshot 140 4 105 7.4 2.5 None None None)) = Fin (of_int 15) \<and>
   \<bar>15 :: int\<bar> < 2 ^ 47 \<and>
   totalFluidVolume (calculateIHPSFluidPlan (snapshot 140 4 105 7.4 2.5 None None None)) = Fin 270 \<and>
   fluidRatePerHour (calculateIHPSFluidPlan (snapshot 140 4 105 7.4 2.5 None None None)) = Fin 15 \<and>
   correctionTime (calculateIHPSFluidPlan (snapshot 140 4 105 7.4 2.5 None None None)) = 18 \<and>
   weight (snapshot 132 4 105 7.4 1.025 None None None) \<le> 10 \<and>
   fluidRatePerHour (calculateIHPSFluidPlan (snapshot 132 4 105 7.4 1.025 None None None)) = Fin 6 \<and>
   correctionTime (calculateIHPSFluidPlan (snapshot 132 4 105 7.4 1.025 None None None)) = 30 \<and>
   totalFluidVolume (calculateIHPSFluidPlan (snapshot 132 4 105 7.4 1.025 None None None)) = Fin 184"
proof -
  let ?s = "snapshot 140 4 105 7.4 2.5 None None None"
  let ?t = "snapshot 132 4 105 7.4 1.025 None None None"
  have ws: "weight ?s \<le> 10" and wt: "weight ?t \<le> 10"
    by (simp_all add: snapshot_def)
  have rs: "fluidRatePerHour_raw (weight ?s) = Fin (of_int 15)"
    by (simp add: snapshot_def fluidRatePerHour_raw_def binary64_eval)
  have m: "\<bar>15 :: int\<bar> < 2 ^ 47"
    by simp
  have cs: "correctionTime (calculateIHPSFluidPlan ?s) = 18"
    by (simp add: snapshot_def plan_correctionTime calculateCorrectionTime_def
        sodiumRule_def chlorideRule_def phRule_def weightRule_def Math_max_def)
  have ct: "correctionTime (calculateIHPSFluidPlan ?t) = 30"
    by (simp add: snapshot_def plan_correctionTime calculateCorrectionTime_def
        sodiumRule_def chlorideRule_def phRule_def weightRule_def Math_max_def)
  from C1_totalFluidVolume [of ?s 15] rs m
  have "fluidRatePerHour (calculateIHPSFluidPlan ?s) = Fin (of_int 15)"
    and "totalFluidVolume (calculateIHPSFluidPlan ?s) =
      Fin (of_int 15 * correctionTime (calculateIHPSFluidPlan ?s))"
    by blast+
  moreover have "Fin (of_int 15) = Fin 15" and "Fin (of_int 15 * 18) = Fin 270"
    by simp_all
  ultimately have fs: "fluidRatePerHour (calculateIHPSFluidPlan ?s) = Fin 15"
    and ts: "totalFluidVolume (calculateIHPSFluidPlan ?s) = Fin 270"
    by (simp_all only: cs)
  have rt: "mul (num (weight ?t)) (num 6) = Fin (6924284427082137 / 2 ^ 50)"
    by (simp add: snapshot_def binary64_eval)
  have n30: "num 30 = Fin 30"
    by (rule num_small)
  have pt: "mul (Fin (6924284427082137 / 2 ^ 50)) (Fin 30) = Fin (6491516650389503 / 2 ^ 45)"
    by (simp add: binary64_eval)
  have r1: "Math_round (Fin (6924284427082137 / 2 ^ 50)) = Fin 6"
    and r2: "Math_round (Fin (6491516650389503 / 2 ^ 45)) = Fin 184"
    by simp_all
  from C1_totalFluidVolume [of ?t 0] wt
  have "totalFluidVolume (calculateIHPSFluidPlan ?t) =
      Math_round (mul (mul (num (weight ?t)) (num 6))
        (num (correctionTime (calculateIHPSFluidPlan ?t))))"
    and "fluidRatePerHour (calculateIHPSFluidPlan ?t) = Math_round (mul (num (weight ?t)) (num 6))"
    by simp_all
  then have tt: "totalFluidVolume (calculateIHPSFluidPlan ?t) = Fin 184"
    and ft: "fluidRatePerHour (calculateIHPSFluidPlan ?t) = Fin 6"
    by (simp_all only: rt ct n30 pt r1 r2)
  from ws rs m ts fs cs wt ft ct tt show ?thesis by blast
qed

lemma plan_alerts: "alerts (calculateIHPSFluidPlan s) = generateSimpleAlerts s"
  by (simp add: calculateIHPSFluidPlan_def Let_def)

lemma plan_fluid:
  "fluidType (calculateIHPSFluidPlan s) = fluid (selectOptimalFluidEnhanced s)"
  "fluidSelectionReason (calculateIHPSFluidPlan s) = reason (selectOptimalFluidEnhanced s)"
  by (simp_all add: calculateIHPSFluidPlan_def Let_def)

lemma plan_bolus: "bolusRecommendation (calculateIHPSFluidPlan s) = calculateBolusRecommendation s"
  by (simp add: calculateIHPSFluidPlan_def Let_def)

text \<open>
  Claim C9: the plan's alerts are the messages of the conditions that hold, in the order
  potassium below 3.0, potassium above 5.5, sodium below 130, chloride below 70, pH above
  7.55; the sequence is empty exactly when none of the five holds.
\<close>

theorem C9_alerts:
  "alerts (calculateIHPSFluidPlan s) =
     (if potassium s < 3.0 then [alert_hypokalaemia] else []) @
     (if potassium s > 5.5 then [alert_hyperkalaemia] else []) @
     (if sodium s < 130 then [alert_hyponatremia] else []) @
     (if chloride s < 70 then [alert_hypochloremia] else []) @
     (if ph s > 7.55 then [alert_alkalosis] else []) \<and>
   (alerts (calculateIHPSFluidPlan s) = [] \<longleftrightarrow>
      \<not> potassium s < 3.0 \<and> \<not> potassium s > 5.5 \<and> \<not> sodium s < 130 \<and>
      \<not> chloride s < 70 \<and> \<not> ph s > 7.55)"
  by (simp add: plan_alerts generateSimpleAlerts_def push_if_def Let_def)

theorem C9_alerts_witness:
  "alerts (calculateIHPSFluidPlan (snapshot 140 4 105 7.4 5 None None None)) = [] \<and>
   alerts (calculateIHPSFluidPlan (snapshot 129 2.8 67 7.6 3.2 None None None)) =
     [alert_hypokalaemia, alert_hyponatremia, alert_hypochloremia, alert_alkalosis]"
  using C9_alerts [of "snapshot 140 4 105 7.4 5 None None None"]
        C9_alerts [of "snapshot 129 2.8 67 7.6 3.2 None None None"]
  by (simp add: snapshot_def)

lemma baseFluid_cases:
  "fluid (baseFluid s) \<in> {''D10 1/2 NS + 20 mEq/L KCl'', ''D10 NS + 20 mEq/L KCl'',
     ''D5 1/2 NS + 20 mEq/L KCl'', ''NS + 5% Dextrose + 20 mEq/L KCl''}"
  by (simp add: baseFluid_def)

lemma replace_40:
  "replace ''D10 1/2 NS + 20 mEq/L KCl'' ''20 mEq/L'' ''40 mEq/L'' = ''D10 1/2 NS + 40 mEq/L KCl''"
  "replace ''D10 NS + 20 mEq/L KCl'' ''20 mEq/L'' ''40 mEq/L'' = ''D10 NS + 40 mEq/L KCl''"
  "replace ''D5 1/2 NS + 20 mEq/L KCl'' ''20 mEq/L'' ''40 mEq/L'' = ''D5 1/2 NS + 40 mEq/L KCl''"
  "replace ''NS + 5% Dextrose + 20 mEq/L KCl'' ''20 mEq/L'' ''40 mEq/L'' = ''NS + 5% Dextrose + 40 mEq/L KCl''"
  by simp_all

lemma replace_hold:
  "replace ''D10 1/2 NS + 20 mEq/L KCl'' '' + 20 mEq/L KCl'' '''' = ''D10 1/2 NS''"
  "replace ''D10 NS + 20 mEq/L KCl'' '' + 20 mEq/L KCl'' '''' = ''D10 NS''"
  "replace ''D5 1/2 NS + 20 mEq/L KCl'' '' + 20 mEq/L KCl'' '''' = ''D5 1/2 NS''"
  "replace ''NS + 5% Dextrose + 20 mEq/L KCl'' '' + 20 mEq/L KCl'' '''' = ''NS + 5% Dextrose''"
  by simp_all

lemma stems_no_KCl:
  "\<not> has_substring ''D10 1/2 NS'' ''KCl''"
  "\<not> has_substring ''D10 NS'' ''KCl''"
  "\<not> has_substring ''D5 1/2 NS'' ''KCl''"
  "\<not> has_substring ''NS + 5% Dextrose'' ''KCl''"
  by simp_all

text \<open>
  Claim C5: whatever base fluid the glucose and sodium branches select, it is a stem followed
  by the standard additive \<open>+ 20 mEq/L KCl\<close>, the stem holding no KCl; with potassium below
  3.0 the selected fluid is the stem with \<open>+ 40 mEq/L KCl\<close> and the reason gains the
  aggressive-KCl fragment; with potassium above 5.0 it is the stem alone and the reason gains
  the hold-KCl fragment; otherwise fluid and reason are those of the base selection.
\<close>

theorem C5_potassium_overlay:
  "\<exists>stem. fluid (baseFluid s) = stem @ '' + 20 mEq/L KCl'' \<and>
     \<not> has_substring stem ''KCl'' \<and>
     fluid (selectOptimalFluidEnhanced s) =
       (if potassium s < 3.0 then stem @ '' + 40 mEq/L KCl''
        else if potassium s > 5.0 then stem
        else stem @ '' + 20 mEq/L KCl'') \<and>
     reason (selectOptimalFluidEnhanced s) =
       (if potassium s < 3.0 then reason (baseFluid s) @ '' + aggressive KCl for severe hypokalaemia''
        else if potassium s > 5.0 then reason (baseFluid s) @ '' + hold KCl for hyperkalaemia''
        else reason (baseFluid s))"
proof -
  have "fluid (baseFluid s) \<in> {''D10 1/2 NS + 20 mEq/L KCl'', ''D10 NS + 20 mEq/L KCl'',
     ''D5 1/2 NS + 20 mEq/L KCl'', ''NS + 5% Dextrose + 20 mEq/L KCl''}"
    by (rule baseFluid_cases)
  then consider
      (a) "fluid (baseFluid s) = ''D10 1/2 NS'' @ '' + 20 mEq/L KCl''"
    | (b) "fluid (baseFluid s) = ''D10 NS'' @ '' + 20 mEq/L KCl''"
    | (c) "fluid (baseFluid s) = ''D5 1/2 NS'' @ '' + 20 mEq/L KCl''"
    | (d) "fluid (baseFluid s) = ''NS + 5% Dextrose'' @ '' + 20 mEq/L KCl''"
    by auto
  then show ?thesis
  proof cases
    case a
    show ?thesis
      by (rule exI [of _ "''D10 1/2 NS''"])
         (simp add: a selectOptimalFluidEnhanced_def adjustKCl_def)
  next
    case b
    show ?thesis
      by (rule exI [of _ "''D10 NS''"])
         (simp add: b selectOptimalFluidEnhanced_def adjustKCl_def)
  next
    case c
    show ?thesis
      by (rule exI [of _ "''D5 1/2 NS''"])
         (simp add: c selectOptimalFluidEnhanced_def adjustKCl_def)
  next
    case d
    show ?thesis
      by (rule exI [of _ "''NS + 5% Dextrose''"])
         (simp add: d selectOptimalFluidEnhanced_def adjustKCl_def)
  qed
qed

text \<open>
  Claim C10: with potassium above 5.0 and at most 5.5 the plan's \<open>fluidType\<close> holds no KCl
  (it is the base fluid without its \<open>+ 20 mEq/L KCl\<close>), the reason ends with the hold-KCl
  fragment, and the hyperkalaemia alert is not among the alerts.
\<close>

theorem C10_hold_without_alert:
  "5.0 < potassium s \<and> potassium s \<le> 5.5 \<longrightarrow>
     \<not> has_substring (fluidType (calculateIHPSFluidPlan s)) ''KCl'' \<and>
     fluid (baseFluid s) = fluidType (calculateIHPSFluidPlan s) @ '' + 20 mEq/L KCl'' \<and>
     fluidSelectionReason (calculateIHPSFluidPlan s) =
       reason (baseFluid s) @ '' + hold KCl for hyperkalaemia'' \<and>
     alert_hyperkalaemia \<notin> set (alerts (calculateIHPSFluidPlan s))"
proof
  assume k: "5.0 < potassium s \<and> potassium s \<le> 5.5"
  have al: "alert_hyperkalaemia \<notin> set (alerts (calculateIHPSFluidPlan s))"
    using k
    by (simp add: plan_alerts generateSimpleAlerts_def push_if_def Let_def
        alert_hyperkalaemia_def alert_hypokalaemia_def alert_hyponatremia_def
        alert_hypochloremia_def alert_alkalosis_def)
  have "fluid (baseFluid s) \<in> {''D10 1/2 NS + 20 mEq/L KCl'', ''D10 NS + 20 mEq/L KCl'',
     ''D5 1/2 NS + 20 mEq/L KCl'', ''NS + 5% Dextrose + 20 mEq/L KCl''}"
    by (rule baseFluid_cases)
  then consider
      (a) "fluid (baseFluid s) = ''D10 1/2 NS + 20 mEq/L KCl''"
    | (b) "fluid (baseFluid s) = ''D10 NS + 20 mEq/L KCl''"
    | (c) "fluid (baseFluid s) = ''D5 1/2 NS + 20 mEq/L KCl''"
    | (d) "fluid (baseFluid s) = ''NS + 5% Dextrose + 20 mEq/L KCl''"
    by auto
  then have "\<not> has_substring (fluidType (calculateIHPSFluidPlan s)) ''KCl'' \<and>
     fluid (baseFluid s) = fluidType (calculateIHPSFluidPlan s) @ '' + 20 mEq/L KCl'' \<and>
     fluidSelectionReason (calculateIHPSFluidPlan s) =
       reason (baseFluid s) @ '' + hold KCl for hyperkalaemia''"
    using k
    by cases (simp_all add: plan_fluid selectOptimalFluidEnhanced_def adjustKCl_def)
  with al show "\<not> has_substring (fluidType (calculateIHPSFluidPlan s)) ''KCl'' \<and>
     fluid (baseFluid s) = fluidType (calculateIHPSFluidPlan s) @ '' + 20 mEq/L KCl'' \<and>
     fluidSelectionReason (calculateIHPSFluidPlan s) =
       reason (baseFluid s) @ '' + hold KCl for hyperkalaemia'' \<and>
     alert_hyperkalaemia \<notin> set (alerts (calculateIHPSFluidPlan s))"
    by simp
qed

theorem C10_hold_without_alert_witness:
  "5.0 < potassium (snapshot 140 5.2 105 7.4 5 None None None) \<and>
   potassium (snapshot 140 5.2 105 7.4 5 None None None) \<le> 5.5 \<and>
   fluidType (calculateIHPSFluidPlan (snapshot 140 5.2 105 7.4 5 None None None)) = ''D5 1/2 NS'' \<and>
   fluidSelectionReason (calculateIHPSFluidPlan (snapshot 140 5.2 105 7.4 5 None None None)) =
     ''Normal sodium - standard D5 1/2 NS + hold KCl for hyperkalaemia'' \<and>
   alerts (calculateIHPSFluidPlan (snapshot 140 5.2 105 7.4 5 None None None)) = [] \<and>
   alert_hyperkalaemia \<notin> set (alerts (calculateIHPSFluidPlan (snapshot 140 5.2 105 7.4 5 None None None)))"
  using C10_hold_without_alert [of "snapshot 140 5.2 105 7.4 5 None None None"]
  by (simp add: snapshot_def plan_fluid plan_alerts selectOptimalFluidEnhanced_def adjustKCl_def
      baseFluid_def truthy_and_def generateSimpleAlerts_def push_if_def Let_def)

theorem C5_potassium_overlay_witness:
  "fluid (selectOptimalFluidEnhanced (snapshot 129 2.8 67 7.4 3.2 None None None)) =
     ''NS + 5% Dextrose + 40 mEq/L KCl'' \<and>
   fluid (selectOptimalFluidEnhanced (snapshot 140 6 105 7.4 5 (Some 2) None None)) = ''D10 NS'' \<and>
   fluid (selectOptimalFluidEnhanced (snapshot 140 4 105 7.4 5 None None None)) =
     ''D5 1/2 NS + 20 mEq/L KCl''"
  using C5_potassium_overlay [of "snapshot 129 2.8 67 7.4 3.2 None None None"]
        C5_potassium_overlay [of "snapshot 140 6 105 7.4 5 (Some 2) None None"]
        C5_potassium_overlay [of "snapshot 140 4 105 7.4 5 None None None"]
  by (simp add: snapshot_def baseFluid_def truthy_and_def)

lemma Math_max_ge: "a \<le> Math_max a b" "b \<le> Math_max a b"
  by (simp_all add: Math_max_def)

text \<open>
  Claim C6: the severity tiers choose 20, 10 or 0 mL/kg by the stated conditions, 0 coming
  with the no-bolus reason; the hematocrit and the lactate factor each leave the running
  volume or raise it to at least 10, never lower it; the returned \<open>volume\<close> is the tier's
  value after both factors, and \<open>totalVolume\<close> is \<open>round (volume * weight)\<close>, the product
  being the one of the source, on binary64 values.
\<close>

theorem C6_bolus:
  "fst (severityTier s) =
     (if sodium s < 130 \<or> chloride s < 70 \<or> ph s > 7.55 then 20
      else if sodium s < 135 \<or> chloride s < 90 \<or> ph s > 7.45 then 10 else 0) \<and>
   fst (severityTier s) \<in> {0, 10, 20} \<and>
   (fst (severityTier s) = 0 \<longrightarrow> snd (severityTier s) = ''No bolus needed - mild abnormalities'') \<and>
   fst b \<le> fst (hctFactor h b) \<and>
   fst (hctFactor h b) = (if truthy_and h (\<lambda>x. x > 50) then max (fst b) 10 else fst b) \<and>
   fst b \<le> fst (lactateFactor l b) \<and>
   fst (lactateFactor l b) = (if truthy_and l (\<lambda>x. x > 2.0) then max (fst b) 10 else fst b) \<and>
   volume (calculateBolusRecommendation s) =
     fst (lactateFactor (lactate s) (hctFactor (hct s) (severityTier s))) \<and>
   fst (severityTier s) \<le> volume (calculateBolusRecommendation s) \<and>
   totalVolume (calculateBolusRecommendation s) =
     Math_round (mul (num (volume (calculateBolusRecommendation s))) (num (weight s)))"
proof -
  have tier: "fst (severityTier s) =
     (if sodium s < 130 \<or> chloride s < 70 \<or> ph s > 7.55 then 20
      else if sodium s < 135 \<or> chloride s < 90 \<or> ph s > 7.45 then 10 else 0)"
    by (simp add: severityTier_def)
  have vals: "fst (severityTier s) \<in> {0, 10, 20}"
    by (simp add: severityTier_def)
  have none: "fst (severityTier s) = 0 \<longrightarrow>
      snd (severityTier s) = ''No bolus needed - mild abnormalities''"
    by (simp add: severityTier_def)
  have h1: "fst b \<le> fst (hctFactor h b)" for b
    by (simp add: hctFactor_def Math_max_def)
  have h2: "fst (hctFactor h b) = (if truthy_and h (\<lambda>x. x > 50) then max (fst b) 10 else fst b)"
    by (simp add: hctFactor_def Math_max_def max_def)
  have l1: "fst b \<le> fst (lactateFactor l b)" for b l
    by (simp add: lactateFactor_def Math_max_def)
  have l2: "fst (lactateFactor l b) =
      (if truthy_and l (\<lambda>x. x > 2.0) then max (fst b) 10 else fst b)"
    by (simp add: lactateFactor_def Math_max_def max_def)
  have vol: "volume (calculateBolusRecommendation s) =
     fst (lactateFactor (lactate s) (hctFactor (hct s) (severityTier s)))"
    by (simp add: calculateBolusRecommendation_def Let_def)
  have "fst (severityTier s) \<le> fst (hctFactor (hct s) (severityTier s))"
    by (simp add: hctFactor_def Math_max_def)
  also have "\<dots> \<le> fst (lactateFactor (lactate s) (hctFactor (hct s) (severityTier s)))"
    by (rule l1)
  finally have up: "fst (severityTier s) \<le> volume (calculateBolusRecommendation s)"
    by (simp only: vol)
  have tot: "totalVolume (calculateBolusRecommendation s) =
     Math_round (mul (num (volume (calculateBolusRecommendation s))) (num (weight s)))"
    by (simp add: calculateBolusRecommendation_def Let_def)
  from tier vals none h1 h2 l1 l2 vol up tot show ?thesis by blast
qed

text \<open>
  At a weight of 1.8499999999999999 kg and 10 mL/kg the binary64 product is 18.5 and the
  total is 19.
\<close>

theorem C6_bolus_witness:
  "fst (severityTier (snapshot 140 4 105 7.4 1.8499999999999999 None (Some 55) None)) = 0 \<and>
   snd (severityTier (snapshot 140 4 105 7.4 1.8499999999999999 None (Some 55) None)) =
     ''No bolus needed - mild abnormalities'' \<and>
   volume (calculateBolusRecommendation (snapshot 140 4 105 7.4 1.8499999999999999 None (Some 55) None)) = 10 \<and>
   mul (num 10) (num (weight (snapshot 140 4 105 7.4 1.8499999999999999 None (Some 55) None))) = Fin 18.5 \<and>
   totalVolume (calculateBolusRecommendation (snapshot 140 4 105 7.4 1.8499999999999999 None (Some 55) None)) = Fin 19"
proof -
  let ?s = "snapshot 140 4 105 7.4 1.8499999999999999 None (Some 55) None"
  have t0: "fst (severityTier ?s) = 0"
    by (simp add: snapshot_def severityTier_def)
  have v: "fst (lactateFactor (lactate ?s) (hctFactor (hct ?s) (severityTier ?s))) = 10"
    by (simp add: snapshot_def severityTier_def hctFactor_def lactateFactor_def truthy_and_def
        Math_max_def)
  have p: "mul (num 10) (num (weight ?s)) = Fin 18.5"
    by (simp add: snapshot_def binary64_eval)
  have r: "Math_round (Fin 18.5) = Fin 19"
    by simp
  from C6_bolus [of ?s] t0
  have n: "snd (severityTier ?s) = ''No bolus needed - mild abnormalities''"
    and "volume (calculateBolusRecommendation ?s) =
      fst (lactateFactor (lactate ?s) (hctFactor (hct ?s) (severityTier ?s)))"
    and tot: "totalVolume (calculateBolusRecommendation ?s) =
      Math_round (mul (num (volume (calculateBolusRecommendation ?s))) (num (weight ?s)))"
    by blast+
  then have vol: "volume (calculateBolusRecommendation ?s) = 10"
    by (simp only: v)
  from tot have "totalVolume (calculateBolusRecommendation ?s) = Fin 19"
    by (simp only: vol p r)
  with t0 n vol p show ?thesis by blast
qed

text \<open>For a measured glucose other than 0 and below 2.5 the base fluid is a D10 solution.\<close>

lemma baseFluid_low_glucose:
  assumes "glucose s = Some g" "g \<noteq> 0" "g < 2.5"
  shows "fluid (baseFluid s) =
     (if sodium s < 135 then ''D10 1/2 NS + 20 mEq/L KCl'' else ''D10 NS + 20 mEq/L KCl'')"
  using assms by (simp add: baseFluid_def truthy_and_def)

text \<open>
  Claim C2 at a measured glucose of 0: the guard \<open>glucose && glucose < 2.5\<close> is false, since
  the number 0 is falsy, and the base fluid is the one of the normal-glucose branch (5%
  dextrose), while a glucose of 0.1 selects the 10%-dextrose solution.
\<close>

theorem C2_zero_glucose:
  "glucose (snapshot 140 4 105 7.4 5 (Some 0) None None) = Some 0 \<and>
   fluid (baseFluid (snapshot 140 4 105 7.4 5 (Some 0) None None)) = ''D5 1/2 NS + 20 mEq/L KCl'' \<and>
   reason (baseFluid (snapshot 140 4 105 7.4 5 (Some 0) None None)) =
     ''Normal sodium - standard D5 1/2 NS'' \<and>
   fluid (baseFluid (snapshot 130 4 105 7.4 5 (Some 0) None None)) =
     ''NS + 5% Dextrose + 20 mEq/L KCl'' \<and>
   fluid (baseFluid (snapshot 140 4 105 7.4 5 (Some 0.1) None None)) = ''D10 NS + 20 mEq/L KCl''"
  by (simp add: snapshot_def baseFluid_def truthy_and_def)

text \<open>
  When all five fields are numbers, the engine is invoked exactly for those in range, and a
  violation is answered with the message of the first field out of range.
\<close>

lemma route_numeric:
  "calculate_route (numeric s) = Invoke_engine (numeric s) \<longleftrightarrow> in_range s"
  by (auto simp add: calculate_route_def validateInputs_def numeric_def in_range_def)

lemma route_numeric_error:
  "\<not> in_range s \<Longrightarrow> calculate_route (numeric s) = Respond_error
     (if sodium s < 120 \<or> sodium s > 155 then ''Sodium must be between 120-155 mmol/L''
      else if potassium s < 2.0 \<or> potassium s > 8.0 then ''Potassium must be between 2.0-8.0 mmol/L''
      else if chloride s < 60 \<or> chloride s > 120 then ''Chloride must be between 60-120 mmol/L''
      else if ph s < 7.0 \<or> ph s > 7.7 then ''pH must be between 7.0-7.7''
      else ''Weight must be between 1.0-10.0 kg'')"
  by (auto simp add: calculate_route_def validateInputs_def numeric_def in_range_def)

text \<open>
  Claim C8 at a request without sodium, and at one without any required field: no
  comparison of \<open>validateInputs\<close> is true, validation succeeds and the handler goes on to
  the engine.
\<close>

theorem C8_absent_field_passes:
  "validateInputs \<lparr>f_sodium = Absent, f_potassium = Number 4, f_chloride = Number 100,
      f_ph = Number 7.4, f_weight = Number 5\<rparr> = Valid \<and>
   calculate_route \<lparr>f_sodium = Absent, f_potassium = Number 4, f_chloride = Number 100,
      f_ph = Number 7.4, f_weight = Number 5\<rparr> =
     Invoke_engine \<lparr>f_sodium = Absent, f_potassium = Number 4, f_chloride = Number 100,
      f_ph = Number 7.4, f_weight = Number 5\<rparr> \<and>
   calculate_route \<lparr>f_sodium = Absent, f_potassium = Absent, f_chloride = Absent,
      f_ph = Absent, f_weight = Absent\<rparr> =
     Invoke_engine \<lparr>f_sodium = Absent, f_potassium = Absent, f_chloride = Absent,
      f_ph = Absent, f_weight = Absent\<rparr>"
  by (simp add: calculate_route_def validateInputs_def)

end
